theory Spec2Isabelle
  imports
    Main
    "HOL-Library.Sublist"
    "HOL-Library.Word"
    "HOL-Library.Char_ord"
    "HOL-Library.List_Lexorder"
begin

section \<open>Go standard library: strings, net/url, mime/multipart, net/http\<close>

text \<open>
  Go strings are byte sequences; \<^typ>\<open>string\<close> is a list of 8-bit characters, so
  \<open>strings.HasPrefix\<close>, \<open>strings.HasSuffix\<close> and \<open>strings.Contains\<close> are the
  list notions \<^const>\<open>prefix\<close>, \<^const>\<open>suffix\<close> and \<^const>\<open>sublist\<close> (a contiguous
  segment). The first argument is the string searched, as in Go.
\<close>

definition HasPrefix :: "string \<Rightarrow> string \<Rightarrow> bool" where
  "HasPrefix s p = prefix p s"

definition HasSuffix :: "string \<Rightarrow> string \<Rightarrow> bool" where
  "HasSuffix s p = suffix p s"

definition Contains :: "string \<Rightarrow> string \<Rightarrow> bool" where
  "Contains s p = sublist p s"

text \<open>
  \<open>strings.ToUpper\<close>: on a string of ASCII bytes only, Go maps \<open>a..z\<close> to \<open>A..Z\<close>
  byte by byte. A string with a byte outside ASCII is upper-cased rune by rune with the
  Unicode tables; that mapping is a parameter (\<open>unicodeToUpper\<close>) of the model.
\<close>

definition isASCII :: "char \<Rightarrow> bool" where
  "isASCII c = ((of_char c :: nat) < 128)"

definition upperASCII :: "char \<Rightarrow> char" where
  "upperASCII c =
     (if (97::nat) \<le> of_char c \<and> (of_char c :: nat) \<le> 122
      then char_of ((of_char c :: nat) - 32) else c)"

definition ToUpper :: "(string \<Rightarrow> string) \<Rightarrow> string \<Rightarrow> string" where
  "ToUpper unicodeToUpper s =
     (if list_all isASCII s then map upperASCII s else unicodeToUpper s)"

text \<open>
  \<open>url.QueryEscape\<close>: letters, digits and \<open>- _ . ~\<close> are kept, a space becomes \<open>+\<close>,
  every other byte becomes \<open>%XX\<close> with upper-case hexadecimal digits.
\<close>

definition upperhex :: "nat \<Rightarrow> char" where
  "upperhex n = ''0123456789ABCDEF'' ! n"

definition unreserved :: "char \<Rightarrow> bool" where
  "unreserved c =
     (let n = (of_char c :: nat) in
      (97 \<le> n \<and> n \<le> 122) \<or> (65 \<le> n \<and> n \<le> 90) \<or> (48 \<le> n \<and> n \<le> 57)
      \<or> c = CHR ''-'' \<or> c = CHR ''_'' \<or> c = CHR ''.'' \<or> c = CHR ''~'')"

definition escapeByte :: "char \<Rightarrow> string" where
  "escapeByte c =
     (if unreserved c then [c]
      else if c = CHR '' '' then ''+''
      else [CHR ''%'', upperhex ((of_char c :: nat) div 16), upperhex ((of_char c :: nat) mod 16)])"

definition QueryEscape :: "string \<Rightarrow> string" where
  "QueryEscape s = concat (map escapeByte s)"

text \<open>
  \<open>url.Values\<close> is a \<open>map[string][]string\<close>: an association list with one entry per
  key. \<open>Set\<close> replaces the values of a key by the one given. \<open>Encode\<close> walks the keys in
  sorted (bytewise lexicographic) order and writes \<open>key=value\<close> pairs, each one after the
  first preceded by \<open>&\<close>; Go decides on the \<open>&\<close> by whether the buffer is still empty.
\<close>

type_synonym Values = "(string \<times> string list) list"

fun Values_Set :: "Values \<Rightarrow> string \<Rightarrow> string \<Rightarrow> Values" where
  "Values_Set [] k x = [(k, [x])]"
| "Values_Set ((k', xs) # v) k x =
     (if k' = k then (k, [x]) # v else (k', xs) # Values_Set v k x)"

definition Values_Get :: "Values \<Rightarrow> string \<Rightarrow> string list" where
  "Values_Get v k = (case map_of v k of None \<Rightarrow> [] | Some xs \<Rightarrow> xs)"

definition Encode_pair :: "string \<Rightarrow> string \<Rightarrow> string \<Rightarrow> string" where
  "Encode_pair keyEscaped buf x =
     (if buf \<noteq> [] then buf @ ''&'' else buf) @ keyEscaped @ ''='' @ QueryEscape x"

definition Encode_key :: "Values \<Rightarrow> string \<Rightarrow> string \<Rightarrow> string" where
  "Encode_key v buf k = foldl (Encode_pair (QueryEscape k)) buf (Values_Get v k)"

definition Values_Encode :: "Values \<Rightarrow> string" where
  "Values_Encode v = (if v = [] then [] else foldl (Encode_key v) [] (sort (map fst v)))"

text \<open>
  \<open>mime/multipart\<close>: a \<open>Writer\<close> holds its boundary and whether a part has been started;
  it writes into the \<open>strings.Builder\<close> it was created on, which the functions below take
  and return. \<open>WriteField\<close> starts a part (the delimiter line, the
  \<open>Content-Disposition\<close> header with the quoted field name, an empty line) and writes the
  value; in the field name a backslash and a double quote are escaped with a backslash, a
  carriage return and a line feed are written \<open>%0D\<close> and \<open>%0A\<close>; \<open>Close\<close> writes the closing delimiter line; \<open>FormDataContentType\<close> is the
  content type naming the boundary, quoted when it holds a special character. Writing to
  a \<open>strings.Builder\<close> never fails, so no call returns an error.
\<close>

definition CRLF :: string where
  "CRLF = [CHR 0x0D, CHR 0x0A]"

record Writer =
  boundary :: string
  lastpart :: bool

definition NewWriter :: "string \<Rightarrow> Writer" where
  "NewWriter b = \<lparr>boundary = b, lastpart = False\<rparr>"

definition escapeQuotes :: "string \<Rightarrow> string" where
  "escapeQuotes s =
     concat (map (\<lambda>c. if c = CHR 0x5C then [CHR 0x5C, CHR 0x5C]
                        else if c = CHR 0x22 then [CHR 0x5C, CHR 0x22]
                        else if c = CHR 0x0D then ''%0D''
                        else if c = CHR 0x0A then ''%0A'' else [c]) s)"

definition partHeader :: "string \<Rightarrow> string" where
  "partHeader fieldname =
     ''Content-Disposition: form-data; name='' @ [CHR 0x22] @ escapeQuotes fieldname @ [CHR 0x22]
     @ CRLF @ CRLF"

definition WriteField :: "Writer \<Rightarrow> string \<Rightarrow> string \<Rightarrow> string \<Rightarrow> string \<times> Writer" where
  "WriteField mw sb fieldname val =
     (sb @ (if lastpart mw then CRLF else []) @ ''--'' @ boundary mw @ CRLF
         @ partHeader fieldname @ val,
      mw\<lparr>lastpart := True\<rparr>)"

definition Close :: "Writer \<Rightarrow> string \<Rightarrow> string \<times> Writer" where
  "Close mw sb = (sb @ CRLF @ ''--'' @ boundary mw @ ''--'' @ CRLF, mw\<lparr>lastpart := False\<rparr>)"

definition tspecials :: string where
  "tspecials = ''()<>@,;:'' @ [CHR 0x5C, CHR 0x22] @ ''/[]?= ''"

definition FormDataContentType :: "Writer \<Rightarrow> string" where
  "FormDataContentType mw =
     ''multipart/form-data; boundary='' @
       (if list_ex (\<lambda>c. c \<in> set tspecials) (boundary mw)
        then [CHR 0x22] @ boundary mw @ [CHR 0x22] else boundary mw)"

text \<open>
  \<open>http.Header\<close> maps a canonical header name to its values; \<open>Get\<close> returns the first
  value, or the empty string. The names the parsers ask for are in canonical form.
\<close>

type_synonym Header = "(string \<times> string list) list"

definition Header_Get :: "Header \<Rightarrow> string \<Rightarrow> string" where
  "Header_Get h k = (case map_of h k of Some (x # _) \<Rightarrow> x | _ \<Rightarrow> [])"

section \<open>goquery: the parsed document\<close>

text \<open>
  The document handle is a tree of element and text nodes. The selectors the parsers use
  are a tag name, a tag with an attribute present (\<open>form[action]\<close>) and a tag with an
  attribute of a given value (\<open>input[type='image']\<close>; an element matches when any of
  its attributes of that name has the value). \<open>Find\<close> returns the matching proper
  descendants in document order, \<open>Attr\<close> an attribute's value if it exists, \<open>Text\<close> the
  concatenated text below a node.
\<close>

datatype node = Element string "(string \<times> string) list" "node list" | TextNode string

datatype selector = ByTag string | ByTagAttr string string | ByTagAttrEq string string string

fun Attr :: "node \<Rightarrow> string \<Rightarrow> string option" where
  "Attr (Element t as cs) a = map_of as a"
| "Attr (TextNode s) a = None"

fun matches :: "selector \<Rightarrow> node \<Rightarrow> bool" where
  "matches (ByTag t) (Element t' as cs) = (t' = t)"
| "matches (ByTagAttr t a) (Element t' as cs) = (t' = t \<and> map_of as a \<noteq> None)"
| "matches (ByTagAttrEq t a x) (Element t' as cs) = (t' = t \<and> (a, x) \<in> set as)"
| "matches sel (TextNode s) = False"

fun descendants :: "node \<Rightarrow> node list" where
  "descendants (Element t as cs) = concat (map (\<lambda>c. c # descendants c) cs)"
| "descendants (TextNode s) = []"

definition Find :: "node \<Rightarrow> selector \<Rightarrow> node list" where
  "Find n sel = filter (matches sel) (descendants n)"

fun Text :: "node \<Rightarrow> string" where
  "Text (TextNode s) = s"
| "Text (Element t as cs) = concat (map Text cs)"

section \<open>The navigation model\<close>

text \<open>
  \<open>navigation.NavigationResponse\<close>, with the fields \<open>makeRequest\<close> and the parsers use.
  \<open>Resp\<close> (a \<open>*http.Response\<close>) and \<open>Reader\<close> (a \<open>*goquery.Document\<close>) are pointers and
  are \<open>nil\<close> on the early returns of \<open>makeRequest\<close>. Of the HTTP response the parsers read
  the header and \<open>Request.URL.Path\<close>, \<open>makeRequest\<close> the status code. \<open>Options\<close> stands
  for \<open>resp.Options.Options\<close>. \<open>Depth\<close> is a Go \<open>int\<close>: 64 bits on a 64-bit
  platform, the addition wrapping around.
\<close>

record http_Response =
  Header :: Header
  Request_URL_Path :: string
  StatusCode :: int

record Options =
  ScrapeJSResponses :: bool
  BodyReadSize :: int

record NavigationResponse =
  Resp :: "http_Response option"
  Depth :: "64 word"
  Options :: Options
  Reader :: "node option"
  Body :: string

text \<open>
  \<open>navigation.NavigationRequest\<close>, as the composite literal of \<open>bodyFormTagParser\<close> and
  the reads of \<open>makeRequest\<close> show it. \<open>Headers\<close> is a \<open>map[string]string\<close>; the
  \<open>nil\<close> map is the empty map. Declared after the response, so that \<open>Depth\<close> and \<open>Body\<close>
  unqualified are the request's fields; the response's are written
  \<open>NavigationResponse.Depth\<close> and \<open>NavigationResponse.Body\<close>.
\<close>

record NavigationRequest =
  Method :: string
  URL :: string
  Body :: string
  Headers :: "string \<rightharpoonup> string"
  Depth :: "64 word"
  Source :: string

text \<open>
  Modelled from the spec: the type \<open>utils.FormInput\<close> is declared outside the sources;
  the spec describes it as one input element of a form with its name, type, current value
  and placeholder/autocomplete hints.
\<close>

record FormInput =
  Type :: string
  Name :: string
  Value :: string
  Attributes :: "(string \<times> string) list"

text \<open>
  What the parsers call and the sources do not hold is a parameter of the model:
  \<^item> \<open>AbsoluteURL\<close>: the method \<open>resp.AbsoluteURL\<close>, the empty string on failure;
  \<^item> \<open>ParseLinkTag\<close>, \<open>ParseRefreshTag\<close>, \<open>ExtractRelativeEndpoints\<close>,
    \<open>ConvertGoquerySelectionToFormInput\<close>: the helpers of package \<open>utils\<close>;
  \<^item> \<open>FormInputFillSuggestions\<close>: the helper applied to \<open>utils.DefaultFormFillData\<close>;
    its result is a Go map, given here as its entries in the order in which the
    \<open>range\<close> loop of \<open>bodyFormTagParser\<close> visits them (Go leaves it unspecified);
  \<^item> \<open>unicodeToUpper\<close>: \<open>strings.ToUpper\<close> on strings that are not pure ASCII;
  \<^item> \<open>randomBoundary\<close>: the random boundary \<open>multipart.NewWriter\<close> draws for the form
    at a given index of the selection.
\<close>

record deps =
  AbsoluteURL :: "NavigationResponse \<Rightarrow> string \<Rightarrow> string"
  ParseLinkTag :: "string \<Rightarrow> string list"
  ParseRefreshTag :: "string \<Rightarrow> string"
  ExtractRelativeEndpoints :: "string \<Rightarrow> string list"
  ConvertGoquerySelectionToFormInput :: "node \<Rightarrow> FormInput"
  FormInputFillSuggestions :: "FormInput list \<Rightarrow> (string \<times> string) list"
  unicodeToUpper :: "string \<Rightarrow> string"
  randomBoundary :: "nat \<Rightarrow> string"

text \<open>
  Modelled from the spec: the constructor \<open>navigation.NewNavigationRequestURL\<close> is outside
  the sources. The spec's navigation model gives a request the method GET when its source
  names none, the URL resolved against the page that produced it, the depth of the parent
  response plus one, and the tag of the strategy as its source.
\<close>

definition NewNavigationRequestURL ::
  "deps \<Rightarrow> string \<Rightarrow> string \<Rightarrow> NavigationResponse \<Rightarrow> NavigationRequest" where
  "NewNavigationRequestURL d path source resp =
     \<lparr>Method = ''GET'', URL = AbsoluteURL d resp path, Body = [], Headers = Map.empty,
      Depth = NavigationResponse.Depth resp + 1, Source = source\<rparr>"

text \<open>
  A parser calls \<open>callback\<close> inline. Its outcome is the list of the requests it passed
  to the callback, in order, and whether it returned or panicked on a \<open>nil\<close> pointer
  (\<open>resp.Resp\<close> or \<open>resp.Reader\<close>) after emitting them.
\<close>

datatype outcome = Returns "NavigationRequest list" | Panics "NavigationRequest list"

fun emitted :: "outcome \<Rightarrow> NavigationRequest list" where
  "emitted (Returns rs) = rs"
| "emitted (Panics rs) = rs"

fun returned :: "outcome \<Rightarrow> bool" where
  "returned (Returns rs) = True"
| "returned (Panics rs) = False"

type_synonym responseParserFunc = "deps \<Rightarrow> NavigationResponse \<Rightarrow> outcome"

text \<open>
  \<open>resp.Reader.Find(sel).Each(f)\<close>: a \<open>nil\<close> document panics; otherwise \<open>f\<close> runs on
  every match with its index, in document order.
\<close>

definition Reader_Find_Each ::
  "NavigationResponse \<Rightarrow> selector \<Rightarrow> (nat \<Rightarrow> node \<Rightarrow> NavigationRequest list) \<Rightarrow> outcome" where
  "Reader_Find_Each resp sel f =
     (case Reader resp of
        None \<Rightarrow> Panics []
      | Some doc \<Rightarrow> Returns (concat (map (\<lambda>(i, item). f i item) (enumerate 0 (Find doc sel)))))"

text \<open>
  The step shared by the tag parsers: read an attribute and, when it exists and is not
  empty, emit the request the constructor makes of it.
\<close>

definition attrRequest ::
  "deps \<Rightarrow> NavigationResponse \<Rightarrow> node \<Rightarrow> string \<Rightarrow> string \<Rightarrow> NavigationRequest list" where
  "attrRequest d resp item a source =
     (case Attr item a of
        Some x \<Rightarrow> if x \<noteq> [] then [NewNavigationRequestURL d x source resp] else []
      | None \<Rightarrow> [])"

section \<open>The response parsers\<close>

subsection \<open>Header based parsers\<close>

definition headerContentLocationParser :: responseParserFunc where
  "headerContentLocationParser d resp =
     (case Resp resp of
        None \<Rightarrow> Panics []
      | Some r \<Rightarrow>
          let header = Header_Get (Header r) ''Content-Location'' in
          if header = [] then Returns []
          else Returns [NewNavigationRequestURL d header ''content-location'' resp])"

definition headerLinkParser :: responseParserFunc where
  "headerLinkParser d resp =
     (case Resp resp of
        None \<Rightarrow> Panics []
      | Some r \<Rightarrow>
          let header = Header_Get (Header r) ''Link'' in
          if header = [] then Returns []
          else Returns (map (\<lambda>x. NewNavigationRequestURL d x ''link'' resp) (ParseLinkTag d header)))"

definition headerLocationParser :: responseParserFunc where
  "headerLocationParser d resp =
     (case Resp resp of
        None \<Rightarrow> Panics []
      | Some r \<Rightarrow>
          let header = Header_Get (Header r) ''Location'' in
          if header = [] then Returns []
          else Returns [NewNavigationRequestURL d header ''location'' resp])"

definition headerRefreshParser :: responseParserFunc where
  "headerRefreshParser d resp =
     (case Resp resp of
        None \<Rightarrow> Panics []
      | Some r \<Rightarrow>
          let header = Header_Get (Header r) ''Refresh'' in
          if header = [] then Returns []
          else let values = ParseRefreshTag d header in
               if values = [] then Returns []
               else Returns [NewNavigationRequestURL d values ''refresh'' resp])"

subsection \<open>Body based parsers\<close>

definition bodyATagParser :: responseParserFunc where
  "bodyATagParser d resp =
     Reader_Find_Each resp (ByTag ''a'')
       (\<lambda>i item. attrRequest d resp item ''href'' ''a'' @ attrRequest d resp item ''ping'' ''a'')"

definition bodyEmbedTagParser :: responseParserFunc where
  "bodyEmbedTagParser d resp =
     Reader_Find_Each resp (ByTagAttr ''embed'' ''src'')
       (\<lambda>i item. attrRequest d resp item ''src'' ''embed'')"

definition bodyFrameTagParser :: responseParserFunc where
  "bodyFrameTagParser d resp =
     Reader_Find_Each resp (ByTagAttr ''frame'' ''src'')
       (\<lambda>i item. attrRequest d resp item ''src'' ''frame'')"

definition bodyIframeTagParser :: responseParserFunc where
  "bodyIframeTagParser d resp =
     Reader_Find_Each resp (ByTagAttr ''iframe'' ''src'')
       (\<lambda>i item. attrRequest d resp item ''src'' ''iframe'')"

definition bodyInputSrcTagParser :: responseParserFunc where
  "bodyInputSrcTagParser d resp =
     Reader_Find_Each resp (ByTagAttrEq ''input'' ''type'' ''image'')
       (\<lambda>i item. attrRequest d resp item ''src'' ''input'')"

definition bodyIsindexActionTagParser :: responseParserFunc where
  "bodyIsindexActionTagParser d resp =
     Reader_Find_Each resp (ByTagAttr ''isindex'' ''action'')
       (\<lambda>i item. attrRequest d resp item ''action'' ''isindex'')"

definition bodyScriptSrcTagParser :: responseParserFunc where
  "bodyScriptSrcTagParser d resp =
     Reader_Find_Each resp (ByTagAttr ''script'' ''src'')
       (\<lambda>i item. attrRequest d resp item ''src'' ''script'')"

definition bodyButtonFormactionTagParser :: responseParserFunc where
  "bodyButtonFormactionTagParser d resp =
     Reader_Find_Each resp (ByTagAttr ''button'' ''formaction'')
       (\<lambda>i item. attrRequest d resp item ''formaction'' ''button'')"

definition bodyMetaContentTagParser :: responseParserFunc where
  "bodyMetaContentTagParser d resp =
     Reader_Find_Each resp (ByTagAttrEq ''meta'' ''http-equiv'' ''refresh'')
       (\<lambda>i item.
          case Attr item ''content'' of
            None \<Rightarrow> []
          | Some header \<Rightarrow>
              let values = ParseRefreshTag d header in
              if values = [] then [] else [NewNavigationRequestURL d values ''meta'' resp])"

subsection \<open>The form parser\<close>

text \<open>
  The locals of the closure of \<open>bodyFormTagParser\<close>, in the order of the source.
  \<open>formEncType\<close> is \<open>encType\<close> after the default, \<open>formMethod\<close> is \<open>method\<close> after the
  default and \<open>strings.ToUpper\<close> (an attribute that is missing reads as the empty string).
\<close>

definition formEncType :: "node \<Rightarrow> string" where
  "formEncType item =
     (case Attr item ''enctype'' of
        None \<Rightarrow> ''application/x-www-form-urlencoded''
      | Some encType \<Rightarrow>
          if encType = [] then ''application/x-www-form-urlencoded'' else encType)"

definition formMethod :: "deps \<Rightarrow> node \<Rightarrow> string" where
  "formMethod d item =
     (let m = (case Attr item ''method'' of None \<Rightarrow> [] | Some m \<Rightarrow> m);
          m = (if m = [] then ''GET'' else m)
      in ToUpper (unicodeToUpper d) m)"

text \<open>
  \<open>formDataMap\<close> is \<open>dataMap\<close>: the suggestions for the \<open>input\<close> descendants of the form.
\<close>

definition formDataMap :: "deps \<Rightarrow> node \<Rightarrow> (string \<times> string) list" where
  "formDataMap d item =
     (let formInputs = map (ConvertGoquerySelectionToFormInput d) (Find item (ByTag ''input''))
      in FormInputFillSuggestions d formInputs)"

text \<open>
  One round of the loop over \<open>dataMap\<close>. The state is the builder \<open>sb\<close>, the multipart
  writer on it (\<open>nil\<close> unless the form is multipart) and \<open>queryValuesWriter\<close>. The
  closure creates the writer exactly when \<open>isMultipartForm\<close> holds, so the loop never
  meets a multipart form without its writer.
\<close>

fun fillField ::
  "bool \<Rightarrow> string \<times> Writer option \<times> Values \<Rightarrow> string \<times> string
     \<Rightarrow> string \<times> Writer option \<times> Values" where
  "fillField isMultipartForm (sb, multipartWriter, queryValuesWriter) (k, x) =
     (if k = [] \<or> x = [] then (sb, multipartWriter, queryValuesWriter)
      else if isMultipartForm then
        (case multipartWriter of
           Some mw \<Rightarrow> (let (sb', mw') = WriteField mw sb k x in (sb', Some mw', queryValuesWriter))
         | None \<Rightarrow> (sb, None, queryValuesWriter))
      else (sb, multipartWriter, Values_Set queryValuesWriter k x))"

text \<open>
  The closure run on one \<open>form[action]\<close> element at index \<open>i\<close> of the selection: \<open>None\<close>
  when it returns early, otherwise the request it passes to the callback.
\<close>

definition formRequest ::
  "deps \<Rightarrow> NavigationResponse \<Rightarrow> nat \<Rightarrow> node \<Rightarrow> NavigationRequest option" where
  "formRequest d resp i item =
     (case Attr item ''action'' of
        None \<Rightarrow> None
      | Some href \<Rightarrow>
          let encType = formEncType item;
              method = formMethod d item;
              actionURL = AbsoluteURL d resp href
          in
          if actionURL = [] then None
          else
            let isMultipartForm = HasPrefix encType ''multipart/'';
                multipartWriter =
                  (if isMultipartForm then Some (NewWriter (randomBoundary d i)) else None);
                (sb, multipartWriter, queryValuesWriter) =
                  foldl (fillField isMultipartForm) ([], multipartWriter, []) (formDataMap d item);
                (sb, contentType) =
                  (case multipartWriter of
                     Some mw \<Rightarrow> (fst (Close mw sb), FormDataContentType mw)
                   | None \<Rightarrow> (sb, encType));
                req = \<lparr>Method = method, URL = actionURL,
                       Body = (if multipartWriter \<noteq> None then sb
                               else Values_Encode queryValuesWriter),
                       Headers = Map.empty,
                       Depth = NavigationResponse.Depth resp, Source = ''form''\<rparr>
            in
            Some (if method = ''GET''
                  then req\<lparr>URL := URL req @ ''?'' @ Values_Encode queryValuesWriter\<rparr>
                  else if method = ''POST''
                  then req\<lparr>Headers := [''Content-Type'' \<mapsto> contentType]\<rparr>
                  else req))"

definition bodyFormTagParser :: responseParserFunc where
  "bodyFormTagParser d resp =
     Reader_Find_Each resp (ByTagAttr ''form'' ''action'')
       (\<lambda>i item. case formRequest d resp i item of None \<Rightarrow> [] | Some req \<Rightarrow> [req])"

subsection \<open>JS regex based parsers\<close>

definition scriptContentRegexParser :: responseParserFunc where
  "scriptContentRegexParser d resp =
     Reader_Find_Each resp (ByTag ''script'')
       (\<lambda>i item.
          if \<not> ScrapeJSResponses (Options resp) then []
          else let t = Text item in
               if t = [] then []
               else map (\<lambda>e. NewNavigationRequestURL d e ''script-content'' resp)
                      (ExtractRelativeEndpoints d t))"

definition scriptJSFileRegexParser :: responseParserFunc where
  "scriptJSFileRegexParser d resp =
     (if \<not> ScrapeJSResponses (Options resp) then Returns []
      else
        case Resp resp of
          None \<Rightarrow> Panics []
        | Some r \<Rightarrow>
            let contentType = Header_Get (Header r) ''Content-Type'' in
            if \<not> (HasSuffix (Request_URL_Path r) ''.js'' \<or> Contains contentType ''/javascript'')
            then Returns []
            else Returns (map (\<lambda>e. NewNavigationRequestURL d e ''js-file'' resp)
                           (ExtractRelativeEndpoints d (NavigationResponse.Body resp))))"

subsection \<open>The pipeline\<close>

definition responseParsers :: "responseParserFunc list" where
  "responseParsers =
     [headerContentLocationParser, headerLinkParser, headerLocationParser, headerRefreshParser,
      bodyATagParser, bodyEmbedTagParser, bodyFrameTagParser, bodyIframeTagParser,
      bodyInputSrcTagParser, bodyIsindexActionTagParser, bodyScriptSrcTagParser,
      bodyFormTagParser, bodyMetaContentTagParser,
      scriptContentRegexParser, scriptJSFileRegexParser]"

text \<open>
  The loop of \<open>parseResponse\<close> over a list of parsers: each runs to its end before the
  next starts; a panic ends the run with what was emitted so far.
\<close>

fun runParsers :: "responseParserFunc list \<Rightarrow> deps \<Rightarrow> NavigationResponse \<Rightarrow> outcome" where
  "runParsers [] d resp = Returns []"
| "runParsers (parser # parsers) d resp =
     (case parser d resp of
        Panics rs \<Rightarrow> Panics rs
      | Returns rs \<Rightarrow>
          (case runParsers parsers d resp of
             Panics rs' \<Rightarrow> Panics (rs @ rs')
           | Returns rs' \<Rightarrow> Returns (rs @ rs')))"

definition parseResponse :: "deps \<Rightarrow> NavigationResponse \<Rightarrow> outcome" where
  "parseResponse d resp = runParsers responseParsers d resp"

section \<open>The fetcher\<close>

text \<open>
  \<open>makeRequest\<close> performs I/O. What the outside world answers is a parameter: whether
  \<open>http.NewRequest\<close> and \<open>retryablehttp.FromRequest\<close> accept the request, what the
  client's \<open>Do\<close> returns for it (an error, or a response), what reading the body up to the
  size limit gives, and whether the bytes parse as a document. The assembly of the outgoing
  HTTP request (body, user agent, headers) is inside \<open>Do\<close>.
\<close>

datatype error = Error string

record transport =
  http_NewRequest :: "NavigationRequest \<Rightarrow> error option"
  retryablehttp_FromRequest :: "NavigationRequest \<Rightarrow> error option"
  httpclient_Do :: "NavigationRequest \<Rightarrow> error + http_Response"
  ReadAll :: "http_Response \<Rightarrow> int \<Rightarrow> error + string"
  NewDocumentFromReader :: "string \<Rightarrow> error + node"

definition Wrap :: "error \<Rightarrow> string \<Rightarrow> error" where
  "Wrap e msg = (case e of Error s \<Rightarrow> Error (msg @ '': '' @ s))"

definition makeRequest ::
  "transport \<Rightarrow> Options \<Rightarrow> NavigationRequest \<Rightarrow> NavigationResponse \<times> error option" where
  "makeRequest c options request =
     (let response = \<lparr>Resp = None, NavigationResponse.Depth = Depth request + 1,
                       Options = options, Reader = None, NavigationResponse.Body = []\<rparr>
      in
      case http_NewRequest c request of
        Some err \<Rightarrow> (response, Some err)
      | None \<Rightarrow>
      (case retryablehttp_FromRequest c request of
        Some err \<Rightarrow> (response, Some err)
      | None \<Rightarrow>
      (case httpclient_Do c request of
        Inl err \<Rightarrow> (response, Some err)
      | Inr resp \<Rightarrow>
          if StatusCode resp = 404 then (response, None)
          else
            (case ReadAll c resp (BodyReadSize options) of
               Inl err \<Rightarrow> (response, Some err)
             | Inr data \<Rightarrow>
                 let response = response\<lparr>NavigationResponse.Body := data, Resp := Some resp\<rparr>
                 in
                 (case NewDocumentFromReader c data of
                    Inl err \<Rightarrow> (response, Some (Wrap err ''could not make document from reader''))
                  | Inr doc \<Rightarrow> (response\<lparr>Reader := Some doc\<rparr>, None))))))"

section \<open>What the form parser computes, in closed form\<close>

text \<open>
  The definitions of this section restate the form parser's results without its loop
  state; the lemmas of the next sections prove that \<open>formRequest\<close> computes them.

  A suggestion is usable when neither its key nor its value is empty (the loop skips the
  others); \<open>formFields\<close> are the usable suggestions of a form, in the order of the loop;
  the form is multipart when its encoding type starts with \<open>multipart/\<close>.
\<close>

definition usable :: "string \<times> string \<Rightarrow> bool" where
  "usable kx = (fst kx \<noteq> [] \<and> snd kx \<noteq> [])"

definition formFields :: "deps \<Rightarrow> node \<Rightarrow> (string \<times> string) list" where
  "formFields d item = filter usable (formDataMap d item)"

definition isMultipart :: "node \<Rightarrow> bool" where
  "isMultipart item = HasPrefix (formEncType item) ''multipart/''"

text \<open>
  \<open>formQueryValues\<close> is \<open>queryValuesWriter\<close> after the loop: every usable field set
  in turn, and nothing at all for a multipart form, whose fields go to the multipart
  writer instead.
\<close>

definition setFields :: "Values \<Rightarrow> (string \<times> string) list \<Rightarrow> Values" where
  "setFields v fs = foldl (\<lambda>v (k, x). Values_Set v k x) v fs"

definition formQueryValues :: "deps \<Rightarrow> node \<Rightarrow> Values" where
  "formQueryValues d item = (if isMultipart item then [] else setFields [] (formFields d item))"

text \<open>
  A multipart message with boundary \<open>b\<close>: one part per field (the delimiter line
  \<open>--b\<close>, the part header, the value), the parts separated by a line break, and the
  closing delimiter line \<open>--b--\<close> after a line break. \<open>parts\<close> is what a writer that has
  (\<open>lp\<close>) or has not started a part before writes for a list of fields.
\<close>

definition multipartPart :: "string \<Rightarrow> string \<times> string \<Rightarrow> string" where
  "multipartPart b kx = ''--'' @ b @ CRLF @ partHeader (fst kx) @ snd kx"

fun joinWith :: "string \<Rightarrow> string list \<Rightarrow> string" where
  "joinWith sep [] = []"
| "joinWith sep [x] = x"
| "joinWith sep (x # y # xs) = x @ sep @ joinWith sep (y # xs)"

definition multipartBody :: "string \<Rightarrow> (string \<times> string) list \<Rightarrow> string" where
  "multipartBody b fs =
     joinWith CRLF (map (multipartPart b) fs) @ CRLF @ ''--'' @ b @ ''--'' @ CRLF"

fun parts :: "string \<Rightarrow> bool \<Rightarrow> (string \<times> string) list \<Rightarrow> string" where
  "parts b lp [] = []"
| "parts b lp (kx # fs) = (if lp then CRLF else []) @ multipartPart b kx @ parts b True fs"

text \<open>
  The payload of a form is the multipart message of its fields, or the URL-encoded query
  values. The boundary parameter of the multipart content type is the boundary, quoted
  when it holds a special character; the content type of a form that is not multipart is
  its encoding type.
\<close>

definition formPayload :: "deps \<Rightarrow> nat \<Rightarrow> node \<Rightarrow> string" where
  "formPayload d i item =
     (if isMultipart item then multipartBody (randomBoundary d i) (formFields d item)
      else Values_Encode (formQueryValues d item))"

definition boundaryParam :: "string \<Rightarrow> string" where
  "boundaryParam b =
     (if list_ex (\<lambda>c. c \<in> set tspecials) b then [CHR 0x22] @ b @ [CHR 0x22] else b)"

definition formContentType :: "deps \<Rightarrow> nat \<Rightarrow> node \<Rightarrow> string" where
  "formContentType d i item =
     (if isMultipart item
      then ''multipart/form-data; boundary='' @ boundaryParam (randomBoundary d i)
      else formEncType item)"

section \<open>Concrete inputs\<close>

text \<open>
  Stand-ins for what the sources do not hold: URLs resolve against \<open>http://h\<close> (the
  empty reference fails), the link and refresh helpers return the header as it is, the
  endpoint extraction returns a text that is not empty as one endpoint, a form input is
  read by its \<open>name\<close>, every input is filled with \<open>x\<close>, and the boundary drawn is
  \<open>b0\<close>.
\<close>

definition example_deps :: deps where
  "example_deps =
     \<lparr>AbsoluteURL = (\<lambda>resp p. if p = [] then [] else ''http://h'' @ p),
      ParseLinkTag = (\<lambda>s. [s]),
      ParseRefreshTag = (\<lambda>s. s),
      ExtractRelativeEndpoints = (\<lambda>s. if s = [] then [] else [s]),
      ConvertGoquerySelectionToFormInput =
        (\<lambda>n. \<lparr>Type = [], Name = (case Attr n ''name'' of None \<Rightarrow> [] | Some x \<Rightarrow> x),
               Value = [], Attributes = []\<rparr>),
      FormInputFillSuggestions = map (\<lambda>fi. (Name fi, ''x'')),
      unicodeToUpper = (\<lambda>s. s),
      randomBoundary = (\<lambda>i. ''b0'')\<rparr>"

text \<open>Forms: each has the action \<open>/s\<close> and one input \<open>q\<close> unless its name says otherwise.\<close>

definition searchForm :: node where
  "searchForm = Element ''form'' [(''action'', ''/s'')] [Element ''input'' [(''name'', ''q'')] []]"

definition postForm :: node where
  "postForm = Element ''form'' [(''action'', ''/s''), (''method'', ''post'')]
                [Element ''input'' [(''name'', ''q'')] []]"

definition putForm :: node where
  "putForm = Element ''form'' [(''action'', ''/s''), (''method'', ''put'')]
               [Element ''input'' [(''name'', ''q'')] []]"

definition uploadForm :: node where
  "uploadForm = Element ''form'' [(''action'', ''/s''), (''enctype'', ''multipart/form-data'')]
                  [Element ''input'' [(''name'', ''q'')] []]"

definition uploadPostForm :: node where
  "uploadPostForm =
     Element ''form''
       [(''action'', ''/s''), (''enctype'', ''multipart/form-data''), (''method'', ''post'')]
       [Element ''input'' [(''name'', ''q'')] []]"

definition emptyUploadForm :: node where
  "emptyUploadForm =
     Element ''form''
       [(''action'', ''/s''), (''enctype'', ''multipart/form-data''), (''method'', ''post'')] []"

definition emptyForm :: node where
  "emptyForm = Element ''form'' [(''action'', ''/s'')] []"

definition noActionForm :: node where
  "noActionForm =
     Element ''form'' [(''method'', ''post'')] [Element ''input'' [(''name'', ''q'')] []]"

definition filterForm :: node where
  "filterForm = Element ''form'' [(''action'', ''/s?p=1''), (''method'', ''get'')]
                  [Element ''input'' [(''name'', ''q'')] []]"

text \<open>
  A page with a link, a button with a \<open>formaction\<close>, the search form and an inline
  script, fetched for a seed request of depth 0 with JS scraping off.
\<close>

definition page_doc :: node where
  "page_doc =
     Element ''html'' []
       [Element ''a'' [(''href'', ''/x'')] [],
        Element ''button'' [(''formaction'', ''/b'')] [],
        searchForm,
        Element ''script'' [] [TextNode ''/api'']]"

definition example_options :: Options where
  "example_options = \<lparr>ScrapeJSResponses = False, BodyReadSize = 1024\<rparr>"

definition example_http :: http_Response where
  "example_http = \<lparr>Header = [], Request_URL_Path = ''/'', StatusCode = 200\<rparr>"

definition example_resp :: NavigationResponse where
  "example_resp =
     \<lparr>Resp = Some example_http, NavigationResponse.Depth = 1, Options = example_options,
      Reader = Some page_doc, NavigationResponse.Body = ''<html>''\<rparr>"

definition seedRequest :: NavigationRequest where
  "seedRequest = \<lparr>Method = ''GET'', URL = ''http://h/'', Body = [], Headers = Map.empty,
                   Depth = 0, Source = ''seed''\<rparr>"

definition example_transport :: transport where
  "example_transport =
     \<lparr>http_NewRequest = (\<lambda>r. None), retryablehttp_FromRequest = (\<lambda>r. None),
      httpclient_Do = (\<lambda>r. Inr example_http), ReadAll = (\<lambda>r n. Inr ''<html>''),
      NewDocumentFromReader = (\<lambda>s. Inr page_doc)\<rparr>"

text \<open>The two requests the pipeline emits for the page.\<close>

definition linkRequest :: NavigationRequest where
  "linkRequest = \<lparr>Method = ''GET'', URL = ''http://h/x'', Body = [], Headers = Map.empty,
                   Depth = 2, Source = ''a''\<rparr>"

definition searchRequest :: NavigationRequest where
  "searchRequest = \<lparr>Method = ''GET'', URL = ''http://h/s?q=x'', Body = ''q=x'',
                     Headers = Map.empty, Depth = 1, Source = ''form''\<rparr>"

text \<open>
  The same fetch answered with status 404: \<open>makeRequest\<close> returns, without an error, a
  response whose \<open>Resp\<close> and \<open>Reader\<close> are \<open>nil\<close>.
\<close>

definition notFound_transport :: transport where
  "notFound_transport =
     example_transport\<lparr>httpclient_Do := (\<lambda>r. Inr (example_http\<lparr>StatusCode := 404\<rparr>))\<rparr>"

definition notFound_resp :: NavigationResponse where
  "notFound_resp =
     \<lparr>Resp = None, NavigationResponse.Depth = 1, Options = example_options,
      Reader = None, NavigationResponse.Body = []\<rparr>"

text \<open>A page with a form without action and a form without inputs.\<close>

definition boundary_doc :: node where
  "boundary_doc = Element ''html'' [] [noActionForm, emptyForm]"

definition boundary_resp :: NavigationResponse where
  "boundary_resp = example_resp\<lparr>Reader := Some boundary_doc\<rparr>"

text \<open>
  A JavaScript file (by its path, not by its content type) with JS scraping on, and the
  same response with JS scraping off.
\<close>

definition jsResp :: NavigationResponse where
  "jsResp =
     \<lparr>Resp = Some \<lparr>Header = [(''Content-Type'', [''text/plain''])],
                    Request_URL_Path = ''/app.js'', StatusCode = 200\<rparr>,
      NavigationResponse.Depth = 1,
      Options = \<lparr>ScrapeJSResponses = True, BodyReadSize = 1024\<rparr>,
      Reader = Some page_doc, NavigationResponse.Body = ''/api/v1''\<rparr>"

definition jsRespOff :: NavigationResponse where
  "jsRespOff = jsResp\<lparr>Options := example_options\<rparr>"

section \<open>The form parser computes the closed form\<close>

text \<open>The loop over \<open>dataMap\<close>, for a form that is not multipart and for one that is.\<close>

lemma fillField_urlencoded:
  "foldl (fillField False) (sb, mw, qv) dm = (sb, mw, setFields qv (filter usable dm))"
  by (induction dm arbitrary: qv) (auto simp: setFields_def usable_def)

lemma fillField_multipart:
  "foldl (fillField True) (sb, Some mw, qv) dm =
     (sb @ parts (boundary mw) (lastpart mw) (filter usable dm),
      Some (mw\<lparr>lastpart := lastpart mw \<or> filter usable dm \<noteq> []\<rparr>), qv)"
  by (induction dm arbitrary: sb mw) (auto simp: usable_def WriteField_def multipartPart_def)

lemma parts_False_joinWith: "parts b False fs = joinWith CRLF (map (multipartPart b) fs)"
proof -
  have "parts b True fs = concat (map (\<lambda>kx. CRLF @ multipartPart b kx) fs)" for fs
    by (induction fs) auto
  moreover have "joinWith sep (x # xs) = x @ concat (map (\<lambda>y. sep @ y) xs)" for sep x xs
    by (induction xs arbitrary: x) auto
  ultimately show ?thesis
    by (cases fs) (auto simp: comp_def)
qed

text \<open>
  The request of a form whose action exists and resolves: the closure of
  \<open>bodyFormTagParser\<close> computes the closed forms of the section before.
\<close>

lemma formRequest_eq:
  assumes "Attr item ''action'' = Some href" and "AbsoluteURL d resp href \<noteq> []"
  shows "formRequest d resp i item =
    Some \<lparr>Method = formMethod d item,
          URL = (if formMethod d item = ''GET''
                 then AbsoluteURL d resp href @ ''?'' @ Values_Encode (formQueryValues d item)
                 else AbsoluteURL d resp href),
          Body = formPayload d i item,
          Headers = (if formMethod d item = ''GET'' then Map.empty
                     else if formMethod d item = ''POST''
                     then [''Content-Type'' \<mapsto> formContentType d i item] else Map.empty),
          Depth = NavigationResponse.Depth resp, Source = ''form''\<rparr>"
proof (cases "isMultipart item")
  case True
  then show ?thesis using assms
    by (simp add: formRequest_def isMultipart_def fillField_multipart NewWriter_def Close_def
        parts_False_joinWith formPayload_def formQueryValues_def formContentType_def
        multipartBody_def formFields_def FormDataContentType_def boundaryParam_def Let_def)
next
  case False
  then show ?thesis using assms
    by (simp add: formRequest_def isMultipart_def fillField_urlencoded
        formPayload_def formQueryValues_def formContentType_def formFields_def Let_def)
qed

lemma formRequest_Some:
  assumes "formRequest d resp i item = Some req"
  obtains href where "Attr item ''action'' = Some href" and "AbsoluteURL d resp href \<noteq> []"
  using assms by (auto simp: formRequest_def Let_def split: option.splits if_splits)

lemma Source_formRequest:
  assumes "formRequest d resp i item = Some req"
  shows "Source req = ''form''"
proof -
  obtain href where "Attr item ''action'' = Some href" and "AbsoluteURL d resp href \<noteq> []"
    using assms by (rule formRequest_Some)
  from formRequest_eq [OF this] assms show ?thesis by auto
qed

lemma Depth_formRequest:
  assumes "formRequest d resp i item = Some req"
  shows "Depth req = NavigationResponse.Depth resp"
proof -
  obtain href where "Attr item ''action'' = Some href" and "AbsoluteURL d resp href \<noteq> []"
    using assms by (rule formRequest_Some)
  from formRequest_eq [OF this] assms show ?thesis by auto
qed

lemma isMultipart_enctype:
  "Attr item ''enctype'' = Some encType \<Longrightarrow> HasPrefix encType ''multipart/'' \<Longrightarrow>
     isMultipart item"
  by (auto simp: isMultipart_def formEncType_def HasPrefix_def)

section \<open>The parsers and the pipeline\<close>

lemma emitted_Reader_Find_Each:
  "r \<in> set (emitted (Reader_Find_Each resp sel f)) \<Longrightarrow> \<exists>i item. r \<in> set (f i item)"
  by (auto simp: Reader_Find_Each_def split: option.splits)

lemma returned_Reader_Find_Each:
  "Reader resp \<noteq> None \<Longrightarrow> returned (Reader_Find_Each resp sel f)"
  by (auto simp: Reader_Find_Each_def)

lemma Source_attrRequest: "r \<in> set (attrRequest d resp item a s) \<Longrightarrow> Source r = s"
  by (auto simp: attrRequest_def NewNavigationRequestURL_def split: option.splits if_splits)

lemma emitted_bodyFormTagParser:
  assumes "req \<in> set (emitted (bodyFormTagParser d resp))"
  obtains i item where "formRequest d resp i item = Some req"
  using assms
  by (auto simp: bodyFormTagParser_def dest!: emitted_Reader_Find_Each split: option.splits)

lemmas parser_defs =
  headerContentLocationParser_def headerLinkParser_def headerLocationParser_def
  headerRefreshParser_def bodyATagParser_def bodyEmbedTagParser_def bodyFrameTagParser_def
  bodyIframeTagParser_def bodyInputSrcTagParser_def bodyIsindexActionTagParser_def
  bodyScriptSrcTagParser_def bodyFormTagParser_def bodyMetaContentTagParser_def
  scriptContentRegexParser_def scriptJSFileRegexParser_def

text \<open>Every registered parser tags what it emits with its own source.\<close>

lemma header_parser_sources:
  "r \<in> set (emitted (headerContentLocationParser d resp)) \<Longrightarrow> Source r = ''content-location''"
  "r \<in> set (emitted (headerLinkParser d resp)) \<Longrightarrow> Source r = ''link''"
  "r \<in> set (emitted (headerLocationParser d resp)) \<Longrightarrow> Source r = ''location''"
  "r \<in> set (emitted (headerRefreshParser d resp)) \<Longrightarrow> Source r = ''refresh''"
  by (auto simp: parser_defs NewNavigationRequestURL_def Let_def split: option.splits if_splits)

lemma body_parser_sources:
  "r \<in> set (emitted (bodyATagParser d resp)) \<Longrightarrow> Source r = ''a''"
  "r \<in> set (emitted (bodyEmbedTagParser d resp)) \<Longrightarrow> Source r = ''embed''"
  "r \<in> set (emitted (bodyFrameTagParser d resp)) \<Longrightarrow> Source r = ''frame''"
  "r \<in> set (emitted (bodyIframeTagParser d resp)) \<Longrightarrow> Source r = ''iframe''"
  "r \<in> set (emitted (bodyInputSrcTagParser d resp)) \<Longrightarrow> Source r = ''input''"
  "r \<in> set (emitted (bodyIsindexActionTagParser d resp)) \<Longrightarrow> Source r = ''isindex''"
  "r \<in> set (emitted (bodyScriptSrcTagParser d resp)) \<Longrightarrow> Source r = ''script''"
  by (auto simp: parser_defs dest!: emitted_Reader_Find_Each dest: Source_attrRequest)

lemma form_parser_source:
  "r \<in> set (emitted (bodyFormTagParser d resp)) \<Longrightarrow> Source r = ''form''"
  by (auto simp: parser_defs dest!: emitted_Reader_Find_Each dest: Source_formRequest [OF sym]
      split: option.splits)

lemma meta_parser_source:
  "r \<in> set (emitted (bodyMetaContentTagParser d resp)) \<Longrightarrow> Source r = ''meta''"
  by (auto simp: parser_defs NewNavigationRequestURL_def Let_def dest!: emitted_Reader_Find_Each
      split: option.splits if_splits)

lemma js_parser_sources:
  "r \<in> set (emitted (scriptContentRegexParser d resp)) \<Longrightarrow> Source r = ''script-content''"
  "r \<in> set (emitted (scriptJSFileRegexParser d resp)) \<Longrightarrow> Source r = ''js-file''"
  by (auto simp: parser_defs NewNavigationRequestURL_def Let_def dest!: emitted_Reader_Find_Each
      split: option.splits if_splits)

text \<open>
  The loop: what it emits was emitted by one of its parsers, and when every parser
  returns, it returns what they emit, one after the other.
\<close>

lemma emitted_runParsers:
  "r \<in> set (emitted (runParsers ps d resp)) \<Longrightarrow> \<exists>p \<in> set ps. r \<in> set (emitted (p d resp))"
  by (induction ps) (auto split: outcome.splits)

lemma runParsers_returned:
  "list_all (\<lambda>p. returned (p d resp)) ps \<Longrightarrow>
     runParsers ps d resp = Returns (concat (map (\<lambda>p. emitted (p d resp)) ps))"
proof (induction ps)
  case Nil
  show ?case by simp
next
  case (Cons p ps)
  then obtain rs where "p d resp = Returns rs"
    by (cases "p d resp") auto
  with Cons show ?case by simp
qed

lemma registered_returned:
  assumes "Resp resp \<noteq> None" and "Reader resp \<noteq> None"
  shows "list_all (\<lambda>p. returned (p d resp)) responseParsers"
  using assms
  by (auto simp: responseParsers_def parser_defs returned_Reader_Find_Each Let_def)

section \<open>The query string has no question mark of its own\<close>

lemma upperhex_not_qmark: "n < 16 \<Longrightarrow> upperhex n \<noteq> CHR ''?''"
proof -
  assume "n < 16"
  then have "n \<in> {0, 1, 2, 3, 4, 5, 6, 7, 8, 9, 10, 11, 12, 13, 14, 15}" by simp arith
  then show ?thesis by (auto simp: upperhex_def)
qed

lemma escapeByte_no_qmark: "CHR ''?'' \<notin> set (escapeByte c)"
proof -
  have hi: "upperhex ((of_char c :: nat) div 16) \<noteq> CHR ''?''"
    by (rule upperhex_not_qmark) (simp add: div_less_iff_less_mult)
  have lo: "upperhex ((of_char c :: nat) mod 16) \<noteq> CHR ''?''"
    by (rule upperhex_not_qmark) simp
  show ?thesis
    using hi lo hi [symmetric] lo [symmetric]
    by (auto simp: escapeByte_def unreserved_def Let_def)
qed

lemma QueryEscape_no_qmark: "CHR ''?'' \<notin> set (QueryEscape s)"
  by (auto simp: QueryEscape_def escapeByte_no_qmark)

lemma Encode_pair_no_qmark:
  "CHR ''?'' \<notin> set buf \<Longrightarrow> CHR ''?'' \<notin> set (foldl (Encode_pair (QueryEscape k)) buf xs)"
  by (induction xs arbitrary: buf) (auto simp: Encode_pair_def QueryEscape_no_qmark)

lemma Encode_key_no_qmark:
  "CHR ''?'' \<notin> set buf \<Longrightarrow> CHR ''?'' \<notin> set (foldl (Encode_key v) buf ks)"
  by (induction ks arbitrary: buf) (auto simp: Encode_key_def Encode_pair_no_qmark)

lemma Values_Encode_no_qmark: "CHR ''?'' \<notin> set (Values_Encode v)"
  by (simp add: Values_Encode_def Encode_key_no_qmark)

lemma count_list_notin: "x \<notin> set xs \<Longrightarrow> count_list xs x = 0"
  by (induction xs) auto

section \<open>Depth\<close>

lemma sint_succ: "sint (w + 1) = sint w + 1" if "sint (w :: 64 word) \<noteq> 2 ^ 63 - 1"
proof -
  have "sint (w + 1) = signed_take_bit 63 (sint w + 1)"
    by (simp add: sint_word_ariths)
  moreover have "- (2 ^ 63) \<le> sint w" and "sint w < 2 ^ 63"
    using sint_ge [of w] sint_lt [of w] by simp_all
  ultimately show ?thesis
    using that by (simp add: signed_take_bit_int_eq_self)
qed

text \<open>Every return of \<open>makeRequest\<close> carries the response built in its first statement.\<close>

lemma makeRequest_Depth:
  "NavigationResponse.Depth (fst (makeRequest c options request)) = Depth request + 1"
  by (simp add: makeRequest_def Let_def split: option.splits sum.splits)

section \<open>The concrete inputs, evaluated\<close>

lemmas string_eval =
  HasPrefix_def HasSuffix_def Contains_def ToUpper_def isASCII_def upperASCII_def
  Values_Encode_def Encode_key_def Encode_pair_def Values_Get_def QueryEscape_def
  escapeByte_def unreserved_def upperhex_def char_of_eq_iff

lemmas form_eval =
  formRequest_def formEncType_def formMethod_def formDataMap_def Find_def string_eval

lemmas multipart_eval =
  NewWriter_def WriteField_def Close_def FormDataContentType_def partHeader_def escapeQuotes_def
  tspecials_def multipartBody_def multipartPart_def boundaryParam_def

lemmas closed_form_eval =
  formFields_def isMultipart_def setFields_def formQueryValues_def formPayload_def
  formContentType_def usable_def

lemmas example_eval = form_eval multipart_eval closed_form_eval example_deps_def example_resp_def

lemma example_makeRequest:
  "makeRequest example_transport example_options seedRequest = (example_resp, None)"
  by (simp add: makeRequest_def example_transport_def example_resp_def seedRequest_def
      example_http_def example_options_def)

lemma notFound_makeRequest:
  "makeRequest notFound_transport example_options seedRequest = (notFound_resp, None)"
  by (simp add: makeRequest_def notFound_transport_def example_transport_def notFound_resp_def
      seedRequest_def example_http_def)

lemma searchForm_request:
  "formRequest example_deps example_resp 0 searchForm = Some searchRequest"
  by (simp add: form_eval example_deps_def example_resp_def searchForm_def searchRequest_def)

lemma putForm_request:
  "formRequest example_deps example_resp 0 putForm =
     Some \<lparr>Method = ''PUT'', URL = ''http://h/s'', Body = ''q=x'', Headers = Map.empty,
           Depth = 1, Source = ''form''\<rparr>"
  by (simp add: form_eval example_deps_def example_resp_def putForm_def)

lemma postForm_request:
  "formRequest example_deps example_resp 0 postForm =
     Some \<lparr>Method = ''POST'', URL = ''http://h/s'', Body = ''q=x'',
           Headers = [''Content-Type'' \<mapsto> ''application/x-www-form-urlencoded''],
           Depth = 1, Source = ''form''\<rparr>"
  by (simp add: form_eval example_deps_def example_resp_def postForm_def)

lemma uploadForm_request:
  "formRequest example_deps example_resp 0 uploadForm =
     Some \<lparr>Method = ''GET'', URL = ''http://h/s?'',
           Body = ''--b0'' @ CRLF @ partHeader ''q'' @ ''x'' @ CRLF @ ''--b0--'' @ CRLF,
           Headers = Map.empty, Depth = 1, Source = ''form''\<rparr>"
  by (simp add: form_eval NewWriter_def WriteField_def Close_def
      example_deps_def example_resp_def uploadForm_def)

lemma uploadPostForm_request:
  "formRequest example_deps example_resp 0 uploadPostForm =
     Some \<lparr>Method = ''POST'', URL = ''http://h/s'',
           Body = ''--b0'' @ CRLF @ partHeader ''q'' @ ''x'' @ CRLF @ ''--b0--'' @ CRLF,
           Headers = [''Content-Type'' \<mapsto> ''multipart/form-data; boundary=b0''],
           Depth = 1, Source = ''form''\<rparr>"
  by (simp add: form_eval NewWriter_def WriteField_def Close_def FormDataContentType_def
      tspecials_def example_deps_def example_resp_def uploadPostForm_def)

lemma emptyUploadForm_request:
  "formRequest example_deps example_resp 0 emptyUploadForm =
     Some \<lparr>Method = ''POST'', URL = ''http://h/s'', Body = CRLF @ ''--b0--'' @ CRLF,
           Headers = [''Content-Type'' \<mapsto> ''multipart/form-data; boundary=b0''],
           Depth = 1, Source = ''form''\<rparr>"
  by (simp add: form_eval NewWriter_def WriteField_def Close_def FormDataContentType_def
      tspecials_def example_deps_def example_resp_def emptyUploadForm_def)

lemma filterForm_request:
  "formRequest example_deps example_resp 0 filterForm =
     Some \<lparr>Method = ''GET'', URL = ''http://h/s?p=1?q=x'', Body = ''q=x'', Headers = Map.empty,
           Depth = 1, Source = ''form''\<rparr>"
  by (simp add: form_eval example_deps_def example_resp_def filterForm_def)

lemma emptyForm_request:
  "formRequest example_deps example_resp 0 emptyForm =
     Some \<lparr>Method = ''GET'', URL = ''http://h/s?'', Body = [], Headers = Map.empty,
           Depth = 1, Source = ''form''\<rparr>"
  by (simp add: form_eval example_deps_def example_resp_def emptyForm_def)

lemma boundary_resp_request:
  "bodyFormTagParser example_deps boundary_resp =
     Returns [\<lparr>Method = ''GET'', URL = ''http://h/s?'', Body = [], Headers = Map.empty,
               Depth = 1, Source = ''form''\<rparr>]"
  by (simp add: bodyFormTagParser_def Reader_Find_Each_def boundary_resp_def boundary_doc_def
      form_eval example_deps_def example_resp_def noActionForm_def emptyForm_def)

lemma descendants_page_doc:
  "descendants page_doc =
     [Element ''a'' [(''href'', ''/x'')] [],
      Element ''button'' [(''formaction'', ''/b'')] [],
      searchForm, Element ''input'' [(''name'', ''q'')] [],
      Element ''script'' [] [TextNode ''/api''], TextNode ''/api'']"
  by (simp add: page_doc_def searchForm_def)

lemma Find_page_doc:
  "Find page_doc (ByTag ''a'') = [Element ''a'' [(''href'', ''/x'')] []]"
  "Find page_doc (ByTagAttr ''embed'' ''src'') = []"
  "Find page_doc (ByTagAttr ''frame'' ''src'') = []"
  "Find page_doc (ByTagAttr ''iframe'' ''src'') = []"
  "Find page_doc (ByTagAttrEq ''input'' ''type'' ''image'') = []"
  "Find page_doc (ByTagAttr ''isindex'' ''action'') = []"
  "Find page_doc (ByTagAttr ''script'' ''src'') = []"
  "Find page_doc (ByTagAttr ''form'' ''action'') = [searchForm]"
  "Find page_doc (ByTagAttrEq ''meta'' ''http-equiv'' ''refresh'') = []"
  "Find page_doc (ByTag ''script'') = [Element ''script'' [] [TextNode ''/api'']]"
  "Find page_doc (ByTagAttr ''button'' ''formaction'') =
     [Element ''button'' [(''formaction'', ''/b'')] []]"
  by (simp_all add: Find_def descendants_page_doc) (simp_all add: searchForm_def)

lemma example_resp_sel:
  "Resp example_resp = Some example_http" "Reader example_resp = Some page_doc"
  "Options example_resp = example_options" "NavigationResponse.Depth example_resp = 1"
  by (simp_all add: example_resp_def)

lemma example_emitted:
  "map (\<lambda>p. emitted (p example_deps example_resp)) responseParsers =
     [[], [], [], [], [linkRequest], [], [], [], [], [], [], [searchRequest], [], [], []]"
  by (simp add: responseParsers_def parser_defs Reader_Find_Each_def example_resp_sel
      Find_page_doc searchForm_request Header_Get_def example_http_def example_options_def
      attrRequest_def NewNavigationRequestURL_def linkRequest_def)
     (simp add: example_deps_def)

lemma example_parseResponse:
  "parseResponse example_deps example_resp = Returns [linkRequest, searchRequest]"
proof -
  have "list_all (\<lambda>p. returned (p example_deps example_resp)) responseParsers"
    by (rule registered_returned) (simp_all add: example_resp_sel)
  then show ?thesis
    unfolding parseResponse_def by (simp add: runParsers_returned example_emitted)
qed

lemma example_bodyFormTagParser:
  "bodyFormTagParser example_deps example_resp = Returns [searchRequest]"
  by (simp add: bodyFormTagParser_def Reader_Find_Each_def example_resp_sel Find_page_doc
      searchForm_request)

lemma example_button:
  "map Source (emitted (bodyButtonFormactionTagParser example_deps example_resp)) = [''button'']"
  by (simp add: bodyButtonFormactionTagParser_def Reader_Find_Each_def example_resp_sel
      Find_page_doc attrRequest_def NewNavigationRequestURL_def)

section \<open>The claims\<close>

subsection \<open>C1: a form without a method\<close>

text \<open>
  Claim C1 says that for a form element whose \<open>method\<close> attribute is omitted the emitted
  request has the method GET, carries the encoded fields in the query string of its
  URL and not in its body. The code sets the body before it looks at the method and never
  clears it. What holds: the method is GET, the URL is the resolved action, a \<open>?\<close> and the
  URL-encoded query values, and the body is the payload all the same: for a form that is
  not multipart the very string that stands in the query, for a multipart form the
  multipart message of the fields (the query is then empty).
\<close>

theorem form_method_omitted:
  assumes "Attr item ''method'' = None"
    and "Attr item ''action'' = Some href"
    and "formRequest d resp i item = Some req"
  shows "Method req = ''GET'' \<and>
    (\<not> isMultipart item \<longrightarrow>
       URL req = AbsoluteURL d resp href @ ''?'' @ Values_Encode (setFields [] (formFields d item)) \<and>
       Body req = Values_Encode (setFields [] (formFields d item))) \<and>
    (isMultipart item \<longrightarrow>
       URL req = AbsoluteURL d resp href @ ''?'' \<and>
       Body req = multipartBody (randomBoundary d i) (formFields d item))"
proof -
  have m: "formMethod d item = ''GET''"
    using assms(1) by (simp add: formMethod_def ToUpper_def isASCII_def upperASCII_def)
  have "AbsoluteURL d resp href \<noteq> []"
    using assms(2,3) by (auto elim: formRequest_Some)
  from formRequest_eq [OF assms(2) this, of i] assms(3) m show ?thesis
    by (auto simp: formPayload_def formQueryValues_def Values_Encode_def)
qed

text \<open>
  The search form has no method and one field: its request carries \<open>q=x\<close> in the query
  and in the body.
\<close>

theorem form_method_omitted_counterexample:
  "Attr searchForm ''method'' = None \<and>
   formRequest example_deps example_resp 0 searchForm = Some searchRequest \<and>
   URL searchRequest = ''http://h/s?q=x'' \<and> Body searchRequest = ''q=x''"
  by (simp add: searchForm_request) (simp add: searchForm_def searchRequest_def)

theorem form_method_omitted_witness:
  "Attr searchForm ''method'' = None \<and> Attr searchForm ''action'' = Some ''/s'' \<and>
   formRequest example_deps example_resp 0 searchForm = Some searchRequest \<and>
   \<not> isMultipart searchForm \<and> Method searchRequest = ''GET'' \<and>
   URL searchRequest = ''http://h/s?q=x'' \<and> Body searchRequest = ''q=x''"
proof -
  have a: "Attr searchForm ''method'' = None" and b: "Attr searchForm ''action'' = Some ''/s''"
    by (simp_all add: searchForm_def)
  have c: "\<not> isMultipart searchForm"
    by (simp add: isMultipart_def formEncType_def HasPrefix_def searchForm_def)
  from form_method_omitted [OF a b searchForm_request] a b c show ?thesis
    by (simp add: searchForm_request searchRequest_def)
qed

subsection \<open>C2: the depth of an emitted request\<close>

text \<open>
  Claim C2 says that every request the pipeline emits from a response has the depth of
  that response plus 1. The form parser copies the depth of the response; the 1 is added
  by \<open>makeRequest\<close>, whose response has the depth of the request it fetched plus 1 on
  every return. What holds for the requests of the form parser: the depth is the depth of
  the parent response, hence the depth of the request that was fetched plus 1, which
  is greater unless the 64-bit integer overflows.
\<close>

theorem form_request_depth:
  assumes "req \<in> set (emitted (bodyFormTagParser d resp))"
  shows "Depth req = NavigationResponse.Depth resp \<and>
    (resp = fst (makeRequest c options parent) \<longrightarrow>
       Depth req = Depth parent + 1 \<and>
       (sint (Depth parent) \<noteq> 2 ^ 63 - 1 \<longrightarrow> sint (Depth req) = sint (Depth parent) + 1))"
proof -
  from assms obtain i item where "formRequest d resp i item = Some req"
    by (rule emitted_bodyFormTagParser)
  then have "Depth req = NavigationResponse.Depth resp"
    by (rule Depth_formRequest)
  then show ?thesis
    by (simp add: makeRequest_Depth sint_succ)
qed

text \<open>
  The pipeline emits the search request from the page: both have depth 1.
\<close>

theorem form_request_depth_counterexample:
  "searchRequest \<in> set (emitted (parseResponse example_deps example_resp)) \<and>
   NavigationResponse.Depth example_resp = 1 \<and> Depth searchRequest = 1"
  by (simp add: example_parseResponse example_resp_sel searchRequest_def)

theorem form_request_depth_witness:
  "searchRequest \<in> set (emitted (bodyFormTagParser example_deps example_resp)) \<and>
   example_resp = fst (makeRequest example_transport example_options seedRequest) \<and>
   sint (Depth seedRequest) \<noteq> 2 ^ 63 - 1 \<and>
   Depth searchRequest = NavigationResponse.Depth example_resp \<and>
   Depth searchRequest = Depth seedRequest + 1 \<and>
   sint (Depth searchRequest) = sint (Depth seedRequest) + 1"
proof -
  have a: "searchRequest \<in> set (emitted (bodyFormTagParser example_deps example_resp))"
    by (simp add: example_bodyFormTagParser)
  have b: "example_resp = fst (makeRequest example_transport example_options seedRequest)"
    by (simp add: example_makeRequest)
  have c: "sint (Depth seedRequest) \<noteq> 2 ^ 63 - 1"
    by (simp add: seedRequest_def)
  from form_request_depth [OF a, of example_transport example_options seedRequest] a b c
  show ?thesis
    by blast
qed

subsection \<open>C3: a form whose method is not GET\<close>

text \<open>
  Claim C3 says that for a form whose method (GET by default, in upper case) is not GET
  the request carries the encoded payload as its body and a \<open>Content-Type\<close> header: the
  multipart content type with the boundary for a multipart form, the encoding type of the
  form otherwise. The code sets the header under \<open>case "POST"\<close> only. What holds: the
  request has the method and the resolved action of the form and the payload as its body;
  for POST its headers are that one \<open>Content-Type\<close>; for any other method it has no
  header.
\<close>

theorem form_not_GET:
  assumes "formMethod d item \<noteq> ''GET''"
    and "Attr item ''action'' = Some href"
    and "formRequest d resp i item = Some req"
  shows "Method req = formMethod d item \<and> URL req = AbsoluteURL d resp href \<and>
    Body req = formPayload d i item \<and>
    (formMethod d item = ''POST'' \<longrightarrow>
       Headers req = [''Content-Type'' \<mapsto> formContentType d i item]) \<and>
    (formMethod d item \<noteq> ''POST'' \<longrightarrow> Headers req = Map.empty)"
proof -
  have "AbsoluteURL d resp href \<noteq> []"
    using assms(2,3) by (auto elim: formRequest_Some)
  from formRequest_eq [OF assms(2) this, of i] assms(1,3) show ?thesis
    by auto
qed

text \<open>A form with the method \<open>put\<close>: the body is there, the header is not.\<close>

theorem form_not_GET_counterexample:
  "formMethod example_deps putForm = ''PUT'' \<and>
   formRequest example_deps example_resp 0 putForm \<noteq> None \<and>
   Body (the (formRequest example_deps example_resp 0 putForm)) = ''q=x'' \<and>
   Headers (the (formRequest example_deps example_resp 0 putForm)) ''Content-Type'' = None"
  by (simp add: putForm_request) (simp add: formMethod_def string_eval putForm_def)

theorem form_not_GET_witness:
  "formMethod example_deps postForm \<noteq> ''GET'' \<and> Attr postForm ''action'' = Some ''/s'' \<and>
   formMethod example_deps postForm = ''POST'' \<and>
   Method (the (formRequest example_deps example_resp 0 postForm)) = ''POST'' \<and>
   URL (the (formRequest example_deps example_resp 0 postForm)) = ''http://h/s'' \<and>
   Body (the (formRequest example_deps example_resp 0 postForm)) = ''q=x'' \<and>
   Headers (the (formRequest example_deps example_resp 0 postForm)) ''Content-Type'' =
     Some ''application/x-www-form-urlencoded''"
proof -
  have m: "formMethod example_deps postForm = ''POST''"
    by (simp add: formMethod_def string_eval postForm_def)
  have a: "formMethod example_deps postForm \<noteq> ''GET''"
    by (simp add: m)
  have b: "Attr postForm ''action'' = Some ''/s''"
    by (simp add: postForm_def)
  from form_not_GET [OF a b postForm_request] a b m show ?thesis
    by (simp add: postForm_request example_eval postForm_def)
qed

subsection \<open>C4: a multipart form\<close>

text \<open>
  Claim C4 says that for a form whose \<open>enctype\<close> starts with \<open>multipart/\<close> the body of
  the request is the multipart encoding of the filled fields and its \<open>Content-Type\<close>
  header names the boundary of the body. The body is so for every method, but the header
  is set for POST only. What holds: the body is the multipart message of the usable fields
  with the boundary drawn for the form; for POST the headers are the \<open>Content-Type\<close>
  \<open>multipart/form-data\<close> with that boundary as its parameter; for any other method,
  GET included, the request has no header.
\<close>

theorem form_multipart:
  assumes "Attr item ''enctype'' = Some encType"
    and "HasPrefix encType ''multipart/''"
    and "formRequest d resp i item = Some req"
  shows "Body req = multipartBody (randomBoundary d i) (formFields d item) \<and>
    (Method req = ''POST'' \<longrightarrow>
       Headers req =
         [''Content-Type'' \<mapsto>
            ''multipart/form-data; boundary='' @ boundaryParam (randomBoundary d i)]) \<and>
    (Method req \<noteq> ''POST'' \<longrightarrow> Headers req = Map.empty)"
proof -
  have mp: "isMultipart item"
    using assms(1,2) by (rule isMultipart_enctype)
  obtain href where "Attr item ''action'' = Some href" and "AbsoluteURL d resp href \<noteq> []"
    using assms(3) by (rule formRequest_Some)
  from formRequest_eq [OF this, of i] assms(3) mp show ?thesis
    by (auto simp: formPayload_def formContentType_def)
qed

text \<open>A multipart form without a method: its request has no \<open>Content-Type\<close>.\<close>

theorem form_multipart_counterexample:
  "Attr uploadForm ''enctype'' = Some ''multipart/form-data'' \<and>
   HasPrefix ''multipart/form-data'' ''multipart/'' \<and>
   formRequest example_deps example_resp 0 uploadForm \<noteq> None \<and>
   Headers (the (formRequest example_deps example_resp 0 uploadForm)) ''Content-Type'' = None"
  by (simp add: uploadForm_request) (simp add: uploadForm_def HasPrefix_def)

theorem form_multipart_witness:
  "Attr uploadPostForm ''enctype'' = Some ''multipart/form-data'' \<and>
   HasPrefix ''multipart/form-data'' ''multipart/'' \<and>
   Method (the (formRequest example_deps example_resp 0 uploadPostForm)) = ''POST'' \<and>
   Body (the (formRequest example_deps example_resp 0 uploadPostForm)) =
     ''--b0'' @ CRLF @ partHeader ''q'' @ ''x'' @ CRLF @ ''--b0--'' @ CRLF \<and>
   Headers (the (formRequest example_deps example_resp 0 uploadPostForm)) ''Content-Type'' =
     Some ''multipart/form-data; boundary=b0''"
proof -
  have a: "Attr uploadPostForm ''enctype'' = Some ''multipart/form-data''"
    by (simp add: uploadPostForm_def)
  have b: "HasPrefix ''multipart/form-data'' ''multipart/''"
    by (simp add: HasPrefix_def)
  from form_multipart [OF a b uploadPostForm_request] a b show ?thesis
    by (simp add: uploadPostForm_request example_eval uploadPostForm_def)
qed

subsection \<open>C5: the pipeline runs every parser\<close>

text \<open>
  Claim C5 says that for every response the pipeline runs every registered strategy once,
  in the order of registration (header parsers, body parsers, JS parsers), each to its end
  before the next starts, and skips none because an earlier one emitted nothing. The
  parsers dereference \<open>resp.Resp\<close> and \<open>resp.Reader\<close> without a check, so on a
  response without them the run ends in a panic. What holds: for every response that has
  both, every registered parser returns, and the pipeline returns having emitted what the
  parsers emit, parser by parser in the order of the list.
\<close>

theorem parseResponse_runs_every_parser:
  assumes "Resp resp \<noteq> None" and "Reader resp \<noteq> None"
  shows "responseParsers =
      [headerContentLocationParser, headerLinkParser, headerLocationParser, headerRefreshParser,
       bodyATagParser, bodyEmbedTagParser, bodyFrameTagParser, bodyIframeTagParser,
       bodyInputSrcTagParser, bodyIsindexActionTagParser, bodyScriptSrcTagParser,
       bodyFormTagParser, bodyMetaContentTagParser,
       scriptContentRegexParser, scriptJSFileRegexParser] \<and>
    list_all (\<lambda>p. returned (p d resp)) responseParsers \<and>
    parseResponse d resp = Returns (concat (map (\<lambda>p. emitted (p d resp)) responseParsers))"
proof -
  have r: "list_all (\<lambda>p. returned (p d resp)) responseParsers"
    using assms by (rule registered_returned)
  then have "parseResponse d resp = Returns (concat (map (\<lambda>p. emitted (p d resp)) responseParsers))"
    unfolding parseResponse_def by (rule runParsers_returned)
  with r show ?thesis
    by (simp add: responseParsers_def)
qed

text \<open>
  The response \<open>makeRequest\<close> returns for a 404 has neither: the first parser panics and
  nothing else runs.
\<close>

theorem parseResponse_runs_every_parser_counterexample:
  "makeRequest notFound_transport example_options seedRequest = (notFound_resp, None) \<and>
   parseResponse example_deps notFound_resp = Panics []"
  by (simp add: notFound_makeRequest)
     (simp add: parseResponse_def responseParsers_def headerContentLocationParser_def
        notFound_resp_def)

text \<open>
  On the page the four header parsers emit nothing; the link parser, the fifth, and the
  form parser, the twelfth, still run.
\<close>

theorem parseResponse_runs_every_parser_witness:
  "Resp example_resp \<noteq> None \<and> Reader example_resp \<noteq> None \<and>
   map (\<lambda>p. emitted (p example_deps example_resp)) responseParsers =
     [[], [], [], [], [linkRequest], [], [], [], [], [], [], [searchRequest], [], [], []] \<and>
   parseResponse example_deps example_resp = Returns [linkRequest, searchRequest]"
  using parseResponse_runs_every_parser [of example_resp example_deps]
  by (simp add: example_resp_sel example_emitted)

subsection \<open>C6: a form without action, a form without inputs\<close>

text \<open>
  Claim C6 says that a form without an \<open>action\<close> attribute yields no request, and that a
  form whose action is present and resolves but which has no input field yields exactly
  one request whose encoded payload (body or query string) is empty. The first part
  holds. The second holds for a form that is not multipart; for a multipart form the
  writer is closed all the same and the body is the closing delimiter line. What holds
  (where the fill heuristic suggests nothing for no input): the form without action is
  not selected and its closure emits nothing; the form without inputs yields one request,
  to the resolved action, followed by a bare \<open>?\<close> for GET, with an empty body unless
  the form is multipart, and then with the closing delimiter line as its body.
\<close>

theorem form_without_action_or_inputs:
  "(Attr item ''action'' = None \<longrightarrow>
      \<not> matches (ByTagAttr ''form'' ''action'') item \<and> formRequest d resp i item = None) \<and>
   (Attr item ''action'' = Some href \<and> AbsoluteURL d resp href \<noteq> [] \<and>
    Find item (ByTag ''input'') = [] \<and> FormInputFillSuggestions d [] = [] \<longrightarrow>
      (\<exists>req. formRequest d resp i item = Some req \<and>
         URL req = AbsoluteURL d resp href @ (if formMethod d item = ''GET'' then ''?'' else []) \<and>
         Body req =
           (if isMultipart item then CRLF @ ''--'' @ randomBoundary d i @ ''--'' @ CRLF else [])))"
proof (intro conjI impI)
  assume "Attr item ''action'' = None"
  then show "\<not> matches (ByTagAttr ''form'' ''action'') item"
    by (cases item) auto
next
  assume "Attr item ''action'' = None"
  then show "formRequest d resp i item = None"
    by (simp add: formRequest_def)
next
  assume h: "Attr item ''action'' = Some href \<and> AbsoluteURL d resp href \<noteq> [] \<and>
    Find item (ByTag ''input'') = [] \<and> FormInputFillSuggestions d [] = []"
  then have "formFields d item = []"
    by (simp add: formFields_def formDataMap_def)
  moreover from h have "Attr item ''action'' = Some href" and "AbsoluteURL d resp href \<noteq> []"
    by simp_all
  note formRequest_eq [OF this, of i]
  ultimately show "\<exists>req. formRequest d resp i item = Some req \<and>
         URL req = AbsoluteURL d resp href @ (if formMethod d item = ''GET'' then ''?'' else []) \<and>
         Body req =
           (if isMultipart item then CRLF @ ''--'' @ randomBoundary d i @ ''--'' @ CRLF else [])"
    by (simp add: formPayload_def formQueryValues_def multipartBody_def setFields_def
        Values_Encode_def)
qed

text \<open>
  A multipart form with an action and no input: the body of its request is the closing
  delimiter line, not the empty string.
\<close>

theorem form_without_action_or_inputs_counterexample:
  "Attr emptyUploadForm ''action'' = Some ''/s'' \<and>
   AbsoluteURL example_deps example_resp ''/s'' = ''http://h/s'' \<and>
   Find emptyUploadForm (ByTag ''input'') = [] \<and>
   formRequest example_deps example_resp 0 emptyUploadForm \<noteq> None \<and>
   URL (the (formRequest example_deps example_resp 0 emptyUploadForm)) = ''http://h/s'' \<and>
   Body (the (formRequest example_deps example_resp 0 emptyUploadForm)) = CRLF @ ''--b0--'' @ CRLF \<and>
   Body (the (formRequest example_deps example_resp 0 emptyUploadForm)) \<noteq> []"
  by (simp add: emptyUploadForm_request)
     (simp add: emptyUploadForm_def example_deps_def Find_def)

text \<open>
  A page with a form without action and a form without inputs: the form parser emits one
  request, for the second, with the query and the body empty.
\<close>

theorem form_without_action_or_inputs_witness:
  "Attr noActionForm ''action'' = None \<and>
   \<not> matches (ByTagAttr ''form'' ''action'') noActionForm \<and>
   formRequest example_deps boundary_resp 0 noActionForm = None \<and>
   Attr emptyForm ''action'' = Some ''/s'' \<and>
   AbsoluteURL example_deps boundary_resp ''/s'' \<noteq> [] \<and>
   Find emptyForm (ByTag ''input'') = [] \<and> FormInputFillSuggestions example_deps [] = [] \<and>
   map URL (emitted (bodyFormTagParser example_deps boundary_resp)) = [''http://h/s?''] \<and>
   map Body (emitted (bodyFormTagParser example_deps boundary_resp)) = [[]]"
proof -
  have a: "Attr noActionForm ''action'' = None"
    by (simp add: noActionForm_def)
  have b: "Attr emptyForm ''action'' = Some ''/s'' \<and>
    AbsoluteURL example_deps boundary_resp ''/s'' \<noteq> [] \<and>
    Find emptyForm (ByTag ''input'') = [] \<and> FormInputFillSuggestions example_deps [] = []"
    by (simp add: emptyForm_def example_deps_def Find_def)
  from form_without_action_or_inputs
      [where item = noActionForm and d = example_deps and resp = boundary_resp and i = 0]
    form_without_action_or_inputs
      [where item = emptyForm and href = "''/s''" and d = example_deps and resp = boundary_resp
        and i = 0] a b
  show ?thesis
    by (simp add: boundary_resp_request)
qed

subsection \<open>C7: JS scraping switched off\<close>

text \<open>
  Claim C7: when \<open>ScrapeJSResponses\<close> is false, the script-content parser and the
  js-file parser emit nothing, whatever the response.
\<close>

theorem js_parsers_disabled:
  assumes "\<not> ScrapeJSResponses (Options resp)"
  shows "emitted (scriptContentRegexParser d resp) = [] \<and>
    emitted (scriptJSFileRegexParser d resp) = []"
  using assms
  by (auto simp: scriptContentRegexParser_def scriptJSFileRegexParser_def Reader_Find_Each_def
      split: option.splits)

text \<open>The JavaScript file with an inline script in its document, scraping off.\<close>

theorem js_parsers_disabled_witness:
  "\<not> ScrapeJSResponses (Options jsRespOff) \<and>
   emitted (scriptContentRegexParser example_deps jsRespOff) = [] \<and>
   emitted (scriptJSFileRegexParser example_deps jsRespOff) = []"
proof -
  have a: "\<not> ScrapeJSResponses (Options jsRespOff)"
    by (simp add: jsRespOff_def example_options_def)
  from js_parsers_disabled [OF a, of example_deps] a show ?thesis
    by simp
qed

subsection \<open>C8: the js-file parser\<close>

text \<open>
  Claim C8: with JS scraping on, the js-file parser applies to a response if and only if
  the path of its request URL ends in \<open>.js\<close> or its \<open>Content-Type\<close> contains
  \<open>/javascript\<close>; when it applies, it extracts the endpoints from the whole body and
  emits one request per endpoint, with the source \<open>js-file\<close>. So it emits something
  exactly when it applies and the extraction finds an endpoint.
\<close>

theorem scriptJSFileRegexParser_applies:
  assumes "ScrapeJSResponses (Options resp)" and "Resp resp = Some r"
  shows
    "(HasSuffix (Request_URL_Path r) ''.js'' \<or>
      Contains (Header_Get (Header r) ''Content-Type'') ''/javascript'' \<longrightarrow>
        scriptJSFileRegexParser d resp =
          Returns (map (\<lambda>e. NewNavigationRequestURL d e ''js-file'' resp)
                     (ExtractRelativeEndpoints d (NavigationResponse.Body resp)))) \<and>
     (\<not> (HasSuffix (Request_URL_Path r) ''.js'' \<or>
         Contains (Header_Get (Header r) ''Content-Type'') ''/javascript'') \<longrightarrow>
        scriptJSFileRegexParser d resp = Returns []) \<and>
     (emitted (scriptJSFileRegexParser d resp) \<noteq> [] \<longleftrightarrow>
        (HasSuffix (Request_URL_Path r) ''.js'' \<or>
         Contains (Header_Get (Header r) ''Content-Type'') ''/javascript'') \<and>
        ExtractRelativeEndpoints d (NavigationResponse.Body resp) \<noteq> []) \<and>
     (\<forall>req \<in> set (emitted (scriptJSFileRegexParser d resp)). Source req = ''js-file'')"
  using assms
  by (auto simp: scriptJSFileRegexParser_def NewNavigationRequestURL_def Let_def)

theorem scriptJSFileRegexParser_applies_witness:
  "ScrapeJSResponses (Options jsResp) \<and>
   HasSuffix ''/app.js'' ''.js'' \<and> \<not> Contains ''text/plain'' ''/javascript'' \<and>
   map URL (emitted (scriptJSFileRegexParser example_deps jsResp)) = [''http://h/api/v1''] \<and>
   map Source (emitted (scriptJSFileRegexParser example_deps jsResp)) = [''js-file'']"
proof -
  have a: "ScrapeJSResponses (Options jsResp)"
    by (simp add: jsResp_def)
  have b: "Resp jsResp = Some \<lparr>Header = [(''Content-Type'', [''text/plain''])],
                    Request_URL_Path = ''/app.js'', StatusCode = 200\<rparr>"
    by (simp add: jsResp_def)
  have c: "HasSuffix ''/app.js'' ''.js''" and d: "\<not> Contains ''text/plain'' ''/javascript''"
    by (simp_all add: HasSuffix_def Contains_def suffix_def sublist_def)
  from scriptJSFileRegexParser_applies [OF a b, of example_deps] a c d show ?thesis
    by (simp add: NewNavigationRequestURL_def example_deps_def jsResp_def)
qed

subsection \<open>C9: no request from a button\<close>

text \<open>
  Claim C9: the parser of \<open>button[formaction]\<close> is defined but not registered, and the
  pipeline never emits a request with the source \<open>button\<close>.
\<close>

theorem parseResponse_never_button:
  "bodyButtonFormactionTagParser \<notin> set responseParsers \<and>
   (\<forall>r \<in> set (emitted (parseResponse d resp)). Source r \<noteq> ''button'')"
proof
  show "bodyButtonFormactionTagParser \<notin> set responseParsers"
  proof
    assume "bodyButtonFormactionTagParser \<in> set responseParsers"
    then have "emitted (bodyButtonFormactionTagParser example_deps example_resp)
        \<in> set (map (\<lambda>p. emitted (p example_deps example_resp)) responseParsers)"
      by simp
    then have "map Source (emitted (bodyButtonFormactionTagParser example_deps example_resp))
        \<in> {[], [''a''], [''form'']}"
      unfolding example_emitted by (auto simp: linkRequest_def searchRequest_def)
    then show False
      by (simp add: example_button)
  qed
next
  show "\<forall>r \<in> set (emitted (parseResponse d resp)). Source r \<noteq> ''button''"
  proof
    fix r
    assume "r \<in> set (emitted (parseResponse d resp))"
    then obtain p where "p \<in> set responseParsers" and "r \<in> set (emitted (p d resp))"
      unfolding parseResponse_def by (blast dest: emitted_runParsers)
    then show "Source r \<noteq> ''button''"
      by (auto simp: responseParsers_def dest: header_parser_sources body_parser_sources
          form_parser_source meta_parser_source js_parser_sources)
  qed
qed

text \<open>
  The page has a button with a \<open>formaction\<close>: its parser would emit a request for it,
  the pipeline emits the link and the form only.
\<close>

theorem parseResponse_never_button_witness:
  "linkRequest \<in> set (emitted (parseResponse example_deps example_resp)) \<and>
   Source linkRequest \<noteq> ''button'' \<and>
   map Source (emitted (bodyButtonFormactionTagParser example_deps example_resp)) = [''button''] \<and>
   map Source (emitted (parseResponse example_deps example_resp)) = [''a'', ''form'']"
  using parseResponse_never_button [of example_deps example_resp]
  by (simp add: example_parseResponse example_button linkRequest_def searchRequest_def)

subsection \<open>C10: the query of a GET form\<close>

text \<open>
  Claim C10 says that for every form whose method is GET the URL of the request is the
  resolved action, a \<open>?\<close> and the URL-encoded field set, the \<open>?\<close> being appended
  even when the action has a query of its own and even when the field set is empty. The
  \<open>?\<close> is unconditional, but what follows it is the encoding of \<open>queryValuesWriter\<close>,
  and the fields of a multipart form are written to the multipart writer only. What holds:
  for a form that is not multipart the URL is the resolved action, a \<open>?\<close> and the
  URL-encoded usable fields; for a multipart form it is the resolved action and a bare
  \<open>?\<close>, whatever its fields; in both cases the URL has one \<open>?\<close> more than the resolved
  action (two when the action has a query of its own), and it ends in \<open>?\<close> when there
  is no usable field.
\<close>

theorem form_GET_query:
  assumes "formMethod d item = ''GET''"
    and "Attr item ''action'' = Some href"
    and "formRequest d resp i item = Some req"
  shows
    "(\<not> isMultipart item \<longrightarrow>
        URL req = AbsoluteURL d resp href @ ''?'' @ Values_Encode (setFields [] (formFields d item))) \<and>
     (isMultipart item \<longrightarrow> URL req = AbsoluteURL d resp href @ ''?'') \<and>
     count_list (URL req) (CHR ''?'') = count_list (AbsoluteURL d resp href) (CHR ''?'') + 1 \<and>
     (formFields d item = [] \<longrightarrow> URL req = AbsoluteURL d resp href @ ''?'')"
proof -
  have "AbsoluteURL d resp href \<noteq> []"
    using assms(2,3) by (auto elim: formRequest_Some)
  from formRequest_eq [OF assms(2) this, of i] assms(1,3)
  have u: "URL req = AbsoluteURL d resp href @ ''?'' @ Values_Encode (formQueryValues d item)"
    by auto
  have n: "count_list (Values_Encode (formQueryValues d item)) (CHR ''?'') = 0"
    by (rule count_list_notin) (rule Values_Encode_no_qmark)
  have e: "formFields d item = [] \<Longrightarrow> Values_Encode (formQueryValues d item) = []"
    by (simp add: formQueryValues_def setFields_def Values_Encode_def)
  have "\<not> isMultipart item \<Longrightarrow>
      URL req = AbsoluteURL d resp href @ ''?'' @ Values_Encode (setFields [] (formFields d item))"
    using u by (simp add: formQueryValues_def)
  moreover have "isMultipart item \<Longrightarrow> URL req = AbsoluteURL d resp href @ ''?''"
    using u by (simp add: formQueryValues_def Values_Encode_def)
  moreover have
    "count_list (URL req) (CHR ''?'') = count_list (AbsoluteURL d resp href) (CHR ''?'') + 1"
    using u n by simp
  moreover have "formFields d item = [] \<Longrightarrow> URL req = AbsoluteURL d resp href @ ''?''"
    using u e by simp
  ultimately show ?thesis
    by blast
qed

text \<open>
  A multipart form without a method and with the usable field \<open>q\<close>: its method is GET,
  the URL-encoding of its fields is \<open>q=x\<close>, and its URL ends in the bare \<open>?\<close>.
\<close>

theorem form_GET_query_counterexample:
  "formMethod example_deps uploadForm = ''GET'' \<and>
   formFields example_deps uploadForm = [(''q'', ''x'')] \<and>
   Values_Encode (setFields [] (formFields example_deps uploadForm)) = ''q=x'' \<and>
   formRequest example_deps example_resp 0 uploadForm \<noteq> None \<and>
   URL (the (formRequest example_deps example_resp 0 uploadForm)) = ''http://h/s?''"
  by (simp add: uploadForm_request)
     (simp add: formMethod_def formFields_def formDataMap_def usable_def setFields_def Find_def
        string_eval example_deps_def uploadForm_def)

text \<open>
  A form whose action has a query of its own, a multipart form, and a form without
  inputs.
\<close>

theorem form_GET_query_witness:
  "formMethod example_deps filterForm = ''GET'' \<and> Attr filterForm ''action'' = Some ''/s?p=1'' \<and>
   \<not> isMultipart filterForm \<and>
   URL (the (formRequest example_deps example_resp 0 filterForm)) = ''http://h/s?p=1?q=x'' \<and>
   count_list (URL (the (formRequest example_deps example_resp 0 filterForm))) (CHR ''?'') = 2 \<and>
   formMethod example_deps uploadForm = ''GET'' \<and> Attr uploadForm ''action'' = Some ''/s'' \<and>
   isMultipart uploadForm \<and>
   URL (the (formRequest example_deps example_resp 0 uploadForm)) = ''http://h/s?'' \<and>
   formMethod example_deps emptyForm = ''GET'' \<and> Attr emptyForm ''action'' = Some ''/s'' \<and>
   formFields example_deps emptyForm = [] \<and>
   URL (the (formRequest example_deps example_resp 0 emptyForm)) = ''http://h/s?''"
proof -
  have a: "formMethod example_deps filterForm = ''GET''"
    and a': "formMethod example_deps emptyForm = ''GET''"
    and a'': "formMethod example_deps uploadForm = ''GET''"
    by (simp_all add: formMethod_def string_eval filterForm_def emptyForm_def uploadForm_def)
  have b: "Attr filterForm ''action'' = Some ''/s?p=1''"
    and b': "Attr emptyForm ''action'' = Some ''/s''"
    and b'': "Attr uploadForm ''action'' = Some ''/s''"
    by (simp_all add: filterForm_def emptyForm_def uploadForm_def)
  have c: "formFields example_deps emptyForm = []"
    by (simp add: formFields_def formDataMap_def Find_def example_deps_def emptyForm_def)
  have m: "\<not> isMultipart filterForm" and m'': "isMultipart uploadForm"
    by (simp_all add: isMultipart_def formEncType_def HasPrefix_def filterForm_def uploadForm_def)
  from form_GET_query [OF a b filterForm_request] form_GET_query [OF a' b' emptyForm_request]
    form_GET_query [OF a'' b'' uploadForm_request] a a' a'' b b' b'' c m m''
  show ?thesis
    by (simp add: filterForm_request emptyForm_request uploadForm_request example_eval
        filterForm_def emptyForm_def uploadForm_def)
qed

end
